theory Spec2Isabelle
  imports Main
begin

section \<open>Quiz state store (src/src/context/QuizContext.tsx)\<close>

text \<open>
  The TypeScript string-literal unions of \<open>QuizState\<close> are datatypes; \<open>statusLiteral\<close>
  and \<open>durationLiteral\<close> give the literal each constructor stands for.  JavaScript
  strings are lists of code units; \<open>currentStep\<close> is an integer-valued number.
\<close>

datatype PainDuration = DurationUnset | SixMonthsOrLess | MoreThanSixMonths

fun durationLiteral :: "PainDuration \<Rightarrow> string" where
  "durationLiteral DurationUnset = ''''"
| "durationLiteral SixMonthsOrLess = ''6_months_or_less''"
| "durationLiteral MoreThanSixMonths = ''more_than_6_months''"

datatype QualificationStatus =
  Qualified | DisqualifiedTooSoon | DisqualifiedNonTreatable | ManualReview | StatusUnset


record QuizState =
  quizId :: string
  currentStep :: int
  painDuration :: PainDuration
  treatmentsTried :: "string list"
  painMedicationsTypes :: "string list"
  conditions :: "string list"
  conditionOther :: string
  missingActivities :: "string list"
  missingOther :: string
  urgencyLevel :: string
  annualSpending :: string
  openQuestions :: string
  name :: string
  email :: string
  phone :: string
  qualificationStatus :: QualificationStatus
  treatableConditions :: "string list"
  nonTreatableConditions :: "string list"
  requiresManualReview :: bool
  approximatePainStartDate :: string
  wantsNotification :: bool

text \<open>Payload of \<open>SET_CONTACT_INFO\<close>: \<open>{ name: string; email: string; phone: string }\<close>.\<close>

record ContactPayload =
  payloadName :: string
  payloadEmail :: string
  payloadPhone :: string

text \<open>
  Payload of \<open>SET_QUALIFICATION_STATUS\<close>:
  \<open>Partial<Pick<QuizState, 'qualificationStatus' | 'treatableConditions' |
  'nonTreatableConditions' | 'requiresManualReview'>>\<close>; an absent property is \<open>None\<close>.
\<close>

record QualificationPayload =
  payloadQualificationStatus :: "QualificationStatus option"
  payloadTreatableConditions :: "string list option"
  payloadNonTreatableConditions :: "string list option"
  payloadRequiresManualReview :: "bool option"

datatype QuizAction =
    SET_PAIN_DURATION PainDuration
  | SET_TREATMENTS_TRIED "string list"
  | SET_PAIN_MEDICATIONS_TYPES "string list"
  | SET_CONDITIONS "string list"
  | SET_CONDITION_OTHER string
  | SET_MISSING_ACTIVITIES "string list"
  | SET_MISSING_OTHER string
  | SET_URGENCY_LEVEL string
  | SET_ANNUAL_SPENDING string
  | SET_OPEN_QUESTIONS string
  | SET_CONTACT_INFO ContactPayload
  | SET_QUALIFICATION_STATUS QualificationPayload
  | SET_APPROXIMATE_PAIN_START_DATE string
  | SET_WANTS_NOTIFICATION bool
  | NEXT_STEP
  | PREV_STEP
  | GO_TO_STEP int
  | RESET

text \<open>
  \<open>initialState\<close> is built once when the module is loaded; its \<open>quizId\<close> comes from the
  clock and the random generator, so it is a parameter here.
\<close>

definition initialState :: "string \<Rightarrow> QuizState" where
  "initialState qid =
     \<lparr> quizId = qid,
       currentStep = 1,
       painDuration = DurationUnset,
       treatmentsTried = [],
       painMedicationsTypes = [],
       conditions = [],
       conditionOther = [],
       missingActivities = [],
       missingOther = [],
       urgencyLevel = [],
       annualSpending = [],
       openQuestions = [],
       name = [],
       email = [],
       phone = [],
       qualificationStatus = StatusUnset,
       treatableConditions = [],
       nonTreatableConditions = [],
       requiresManualReview = False,
       approximatePainStartDate = [],
       wantsNotification = False \<rparr>"

text \<open>\<open>{ ...state, ...action.payload }\<close>: every property present in the payload overwrites.\<close>

definition spreadQualification :: "QuizState \<Rightarrow> QualificationPayload \<Rightarrow> QuizState" where
  "spreadQualification state p =
     state\<lparr> qualificationStatus :=
               (case payloadQualificationStatus p of
                  Some v \<Rightarrow> v | None \<Rightarrow> qualificationStatus state),
             treatableConditions :=
               (case payloadTreatableConditions p of
                  Some v \<Rightarrow> v | None \<Rightarrow> treatableConditions state),
             nonTreatableConditions :=
               (case payloadNonTreatableConditions p of
                  Some v \<Rightarrow> v | None \<Rightarrow> nonTreatableConditions state),
             requiresManualReview :=
               (case payloadRequiresManualReview p of
                  Some v \<Rightarrow> v | None \<Rightarrow> requiresManualReview state) \<rparr>"

fun quizReducer :: "string \<Rightarrow> QuizState \<Rightarrow> QuizAction \<Rightarrow> QuizState" where
  "quizReducer qid state (SET_PAIN_DURATION payload) = state\<lparr>painDuration := payload\<rparr>"
| "quizReducer qid state (SET_TREATMENTS_TRIED payload) = state\<lparr>treatmentsTried := payload\<rparr>"
| "quizReducer qid state (SET_PAIN_MEDICATIONS_TYPES payload) =
     state\<lparr>painMedicationsTypes := payload\<rparr>"
| "quizReducer qid state (SET_CONDITIONS payload) = state\<lparr>conditions := payload\<rparr>"
| "quizReducer qid state (SET_CONDITION_OTHER payload) = state\<lparr>conditionOther := payload\<rparr>"
| "quizReducer qid state (SET_MISSING_ACTIVITIES payload) =
     state\<lparr>missingActivities := payload\<rparr>"
| "quizReducer qid state (SET_MISSING_OTHER payload) = state\<lparr>missingOther := payload\<rparr>"
| "quizReducer qid state (SET_URGENCY_LEVEL payload) = state\<lparr>urgencyLevel := payload\<rparr>"
| "quizReducer qid state (SET_ANNUAL_SPENDING payload) = state\<lparr>annualSpending := payload\<rparr>"
| "quizReducer qid state (SET_OPEN_QUESTIONS payload) = state\<lparr>openQuestions := payload\<rparr>"
| "quizReducer qid state (SET_CONTACT_INFO payload) =
     state\<lparr> name := payloadName payload,
             email := payloadEmail payload,
             phone := payloadPhone payload \<rparr>"
| "quizReducer qid state (SET_QUALIFICATION_STATUS payload) = spreadQualification state payload"
| "quizReducer qid state (SET_APPROXIMATE_PAIN_START_DATE payload) =
     state\<lparr>approximatePainStartDate := payload\<rparr>"
| "quizReducer qid state (SET_WANTS_NOTIFICATION payload) =
     state\<lparr>wantsNotification := payload\<rparr>"
| "quizReducer qid state NEXT_STEP = state\<lparr>currentStep := currentStep state + 1\<rparr>"
| "quizReducer qid state PREV_STEP = state\<lparr>currentStep := max 1 (currentStep state - 1)\<rparr>"
| "quizReducer qid state (GO_TO_STEP payload) = state\<lparr>currentStep := payload\<rparr>"
| "quizReducer qid state RESET = initialState qid"



text \<open>Names of the fields of \<open>QuizState\<close>, to speak about what an action leaves alone.\<close>

datatype Field =
    F_quizId | F_currentStep | F_painDuration | F_treatmentsTried | F_painMedicationsTypes
  | F_conditions | F_conditionOther | F_missingActivities | F_missingOther | F_urgencyLevel
  | F_annualSpending | F_openQuestions | F_name | F_email | F_phone | F_qualificationStatus
  | F_treatableConditions | F_nonTreatableConditions | F_requiresManualReview
  | F_approximatePainStartDate | F_wantsNotification

fun sameField :: "Field \<Rightarrow> QuizState \<Rightarrow> QuizState \<Rightarrow> bool" where
  "sameField F_quizId a b = (quizId a = quizId b)"
| "sameField F_currentStep a b = (currentStep a = currentStep b)"
| "sameField F_painDuration a b = (painDuration a = painDuration b)"
| "sameField F_treatmentsTried a b = (treatmentsTried a = treatmentsTried b)"
| "sameField F_painMedicationsTypes a b = (painMedicationsTypes a = painMedicationsTypes b)"
| "sameField F_conditions a b = (conditions a = conditions b)"
| "sameField F_conditionOther a b = (conditionOther a = conditionOther b)"
| "sameField F_missingActivities a b = (missingActivities a = missingActivities b)"
| "sameField F_missingOther a b = (missingOther a = missingOther b)"
| "sameField F_urgencyLevel a b = (urgencyLevel a = urgencyLevel b)"
| "sameField F_annualSpending a b = (annualSpending a = annualSpending b)"
| "sameField F_openQuestions a b = (openQuestions a = openQuestions b)"
| "sameField F_name a b = (name a = name b)"
| "sameField F_email a b = (email a = email b)"
| "sameField F_phone a b = (phone a = phone b)"
| "sameField F_qualificationStatus a b = (qualificationStatus a = qualificationStatus b)"
| "sameField F_treatableConditions a b = (treatableConditions a = treatableConditions b)"
| "sameField F_nonTreatableConditions a b =
     (nonTreatableConditions a = nonTreatableConditions b)"
| "sameField F_requiresManualReview a b = (requiresManualReview a = requiresManualReview b)"
| "sameField F_approximatePainStartDate a b =
     (approximatePainStartDate a = approximatePainStartDate b)"
| "sameField F_wantsNotification a b = (wantsNotification a = wantsNotification b)"

text \<open>
  The fields a \<open>SET_*\<close> action names.  For \<open>SET_QUALIFICATION_STATUS\<close> these are the
  properties present in its partial payload.
\<close>

fun presentField :: "'a option \<Rightarrow> Field \<Rightarrow> Field list" where
  "presentField None f = []"
| "presentField (Some v) f = [f]"

fun designated :: "QuizAction \<Rightarrow> Field list option" where
  "designated (SET_PAIN_DURATION p) = Some [F_painDuration]"
| "designated (SET_TREATMENTS_TRIED p) = Some [F_treatmentsTried]"
| "designated (SET_PAIN_MEDICATIONS_TYPES p) = Some [F_painMedicationsTypes]"
| "designated (SET_CONDITIONS p) = Some [F_conditions]"
| "designated (SET_CONDITION_OTHER p) = Some [F_conditionOther]"
| "designated (SET_MISSING_ACTIVITIES p) = Some [F_missingActivities]"
| "designated (SET_MISSING_OTHER p) = Some [F_missingOther]"
| "designated (SET_URGENCY_LEVEL p) = Some [F_urgencyLevel]"
| "designated (SET_ANNUAL_SPENDING p) = Some [F_annualSpending]"
| "designated (SET_OPEN_QUESTIONS p) = Some [F_openQuestions]"
| "designated (SET_CONTACT_INFO p) = Some [F_name, F_email, F_phone]"
| "designated (SET_QUALIFICATION_STATUS p) =
     Some (presentField (payloadQualificationStatus p) F_qualificationStatus @
           presentField (payloadTreatableConditions p) F_treatableConditions @
           presentField (payloadNonTreatableConditions p) F_nonTreatableConditions @
           presentField (payloadRequiresManualReview p) F_requiresManualReview)"
| "designated (SET_APPROXIMATE_PAIN_START_DATE p) = Some [F_approximatePainStartDate]"
| "designated (SET_WANTS_NOTIFICATION p) = Some [F_wantsNotification]"
| "designated NEXT_STEP = None"
| "designated PREV_STEP = None"
| "designated (GO_TO_STEP p) = None"
| "designated RESET = None"


section \<open>JavaScript string helpers\<close>

text \<open>
  A string is the list of its code units; the model covers code units below 256.
  \<open>isWhiteSpace\<close> holds of the code units below 256 that \<open>String.prototype.trim\<close>
  strips and the regular-expression class \<open>\s\<close> matches: tab, line feed, vertical tab,
  form feed, carriage return, space and no-break space.
\<close>

definition whiteSpaceChars :: "char list" where
  "whiteSpaceChars = [CHR 0x09, CHR 0x0A, CHR 0x0B, CHR 0x0C, CHR 0x0D, CHR 0x20, CHR 0xA0]"

definition isWhiteSpace :: "char \<Rightarrow> bool" where
  "isWhiteSpace c = (c \<in> set whiteSpaceChars)"

definition trim :: "string \<Rightarrow> string" where
  "trim s = rev (dropWhile isWhiteSpace (rev (dropWhile isWhiteSpace s)))"

text \<open>\<open>s.includes(sub)\<close>: \<open>sub\<close> occurs in \<open>s\<close> as a contiguous run.\<close>

fun includesStr :: "string \<Rightarrow> string \<Rightarrow> bool" where
  "includesStr [] sub = (sub = [])"
| "includesStr (c # cs) sub = (take (length sub) (c # cs) = sub \<or> includesStr cs sub)"

text \<open>
  \<open>toUpperCase\<close> and \<open>toLowerCase\<close> on the ASCII letters.  The callers only compare the
  result with ASCII words (\<open>POST\<close>, \<open>csrf\<close>), and no other code unit below 256 is mapped
  to a letter of those words, so leaving the other code units alone decides the same
  comparisons.
\<close>

definition upperChar :: "char \<Rightarrow> char" where
  "upperChar c =
     (let n = (of_char c :: nat)
      in if 97 \<le> n \<and> n \<le> 122 then char_of (n - 32) else c)"

definition lowerChar :: "char \<Rightarrow> char" where
  "lowerChar c =
     (let n = (of_char c :: nat)
      in if 65 \<le> n \<and> n \<le> 90 then char_of (n + 32) else c)"

definition toUpperCase :: "string \<Rightarrow> string" where
  "toUpperCase s = map upperChar s"

definition toLowerCase :: "string \<Rightarrow> string" where
  "toLowerCase s = map lowerChar s"

section \<open>Cellular science page routing (CellularSciencePage, src/unnamed/part_000)\<close>

text \<open>
  \<open>isConditionTreatable\<close> comes from the conditions table of \<open>@data/conditions\<close>; it is
  a parameter.  \<open>selectedConditions\<close> and \<open>otherConditions\<close> are the component state
  the closures read.
\<close>

definition validateSubmission :: "string list \<Rightarrow> string \<Rightarrow> bool" where
  "validateSubmission selectedConditions otherConditions =
     (let hasSelectedConditions = length selectedConditions > 0;
          hasOtherConditions = length (trim otherConditions) > 0
      in if \<not> hasSelectedConditions \<and> \<not> hasOtherConditions then False else True)"

definition determineRoute :: "(string \<Rightarrow> bool) \<Rightarrow> string list \<Rightarrow> string \<Rightarrow> string" where
  "determineRoute isConditionTreatable selectedConditions otherConditions =
     (let hasSelectedConditions = length selectedConditions > 0;
          hasOtherConditions = length (trim otherConditions) > 0;
          hasTreatable = list_ex (\<lambda>c. isConditionTreatable c) selectedConditions;
          hasNonTreatable = list_ex (\<lambda>c. \<not> isConditionTreatable c) selectedConditions;
          afterSelected =
            (if hasOtherConditions \<and> \<not> hasSelectedConditions then ''/condition-confirmation''
             else ''/disqualified'')
      in if hasSelectedConditions
         then (if hasNonTreatable \<and> \<not> hasTreatable then ''/disqualified''
               else if hasTreatable then ''/condition-confirmation''
               else afterSelected)
         else afterSelected)"

text \<open>
  \<open>handleSubmit\<close>: nothing happens when validation fails; otherwise the page navigates to
  the route, after calling \<open>disqualify('non-treatable')\<close> when the route is
  \<open>/disqualified\<close>.  The result is the navigation target and whether \<open>disqualify\<close> ran.
\<close>

definition handleSubmit :: "(string \<Rightarrow> bool) \<Rightarrow> string list \<Rightarrow> string \<Rightarrow> (string \<times> bool) option" where
  "handleSubmit isConditionTreatable selectedConditions otherConditions =
     (if \<not> validateSubmission selectedConditions otherConditions then None
      else let route = determineRoute isConditionTreatable selectedConditions otherConditions
           in Some (route, route = ''/disqualified''))"

section \<open>Input sanitizer (src/unnamed/part_006) and e-mail validation (src/utils/validation.ts)\<close>

text \<open>\<open>value.replace(/<[^>]*>/g, '')\<close>: every \<open><\<close> up to the next \<open>>\<close> is removed.\<close>

function stripHtmlTags :: "string \<Rightarrow> string" where
  "stripHtmlTags [] = []"
| "stripHtmlTags (c # cs) =
     (if c = CHR ''<'' \<and> CHR ''>'' \<in> set cs
      then stripHtmlTags (tl (dropWhile (\<lambda>x. x \<noteq> CHR ''>'') cs))
      else c # stripHtmlTags cs)"
  by pat_completeness auto
termination
proof (relation "measure length")
  fix c :: char and cs :: string
  have "length (tl (dropWhile (\<lambda>x. x \<noteq> CHR ''>'') cs)) \<le> length cs"
    using length_dropWhile_le [of "\<lambda>x. x \<noteq> CHR ''>''" cs] by simp
  then show "(tl (dropWhile (\<lambda>x. x \<noteq> CHR ''>'') cs), c # cs) \<in> measure length"
    by simp
qed auto

text \<open>
  DOMPurify is an external library and \<open>VALIDATION_RULES.EMAIL_REGEX\<close> lives in the
  constants module: both are parameters.  \<open>DOMPurify_sanitize\<close> returns \<open>None\<close> when the
  library throws.
\<close>

datatype PurifyConfig = STRICT_CONFIG | TEXTAREA_CONFIG

record SanitizerEnv =
  DOM_AVAILABLE :: bool
  DOMPurify_sanitize :: "string \<Rightarrow> PurifyConfig \<Rightarrow> string option"
  EMAIL_REGEX_test :: "string \<Rightarrow> bool"

definition sanitizeWithDomPurify :: "SanitizerEnv \<Rightarrow> string \<Rightarrow> PurifyConfig \<Rightarrow> string option" where
  "sanitizeWithDomPurify env v config =
     (if \<not> DOM_AVAILABLE env then Some (stripHtmlTags v)
      else DOMPurify_sanitize env v config)"

text \<open>\<open>sanitized.replace(/[<>'"]/g, '')\<close> drops the four characters; a throw gives \<open>''\<close>.\<close>

definition sanitizeEmail :: "SanitizerEnv \<Rightarrow> string \<Rightarrow> string" where
  "sanitizeEmail env emailStr =
     (case sanitizeWithDomPurify env emailStr STRICT_CONFIG of
        None \<Rightarrow> []
      | Some sanitized \<Rightarrow>
          filter (\<lambda>c. c \<notin> set [CHR ''<'', CHR ''>'', CHR 0x27, CHR 0x22]) (trim sanitized))"

definition validateEmail :: "SanitizerEnv \<Rightarrow> string \<Rightarrow> bool" where
  "validateEmail env emailStr =
     (if emailStr = [] then False
      else let sanitized = sanitizeEmail env emailStr
           in if length sanitized = 0 then False
              else if includesStr sanitized ''..'' then False
              else EMAIL_REGEX_test env sanitized)"


section \<open>API client (API service module in src/utils/validation.ts): data\<close>

datatype ApiErrorCode =
    NETWORK_ERROR | TIMEOUT_ERROR | VALIDATION_ERROR | INVALID_EMAIL | INVALID_PHONE
  | SERVER_ERROR | NOT_FOUND | UNAUTHORIZED | FORBIDDEN | CSRF_TOKEN_MISSING
  | CSRF_TOKEN_INVALID | RATE_LIMIT | UNKNOWN_ERROR

text \<open>
  A JSON object with string-valued properties is an association list; the first binding
  of a key is its value, a key without binding is \<open>undefined\<close>.
\<close>

type_synonym json = "(string \<times> string) list"

record ApiResponse =
  success :: bool
  data :: "json option"
  error :: "string option"
  code :: "ApiErrorCode option"

text \<open>
  A thrown value: an \<open>ApiError\<close> with message, code and optional status code, or any
  other error, of which the client reads the \<open>name\<close> property and whether it is a
  \<open>TypeError\<close>.
\<close>

datatype JsError =
    ApiError string ApiErrorCode "nat option"
  | OtherError "string option" bool

text \<open>A retry count and two delays in milliseconds, natural numbers.\<close>

record RetryConfig =
  maxRetries :: nat
  baseDelay :: nat
  maxDelay :: nat

definition DEFAULT_RETRY_CONFIG :: RetryConfig where
  "DEFAULT_RETRY_CONFIG = \<lparr> maxRetries = 3, baseDelay = 1000, maxDelay = 10000 \<rparr>"

text \<open>\<open>requestMethod\<close> is the \<open>method\<close> property of \<open>RequestInit\<close>.\<close>

record RequestInit =
  requestMethod :: "string option"
  headers :: "(string \<times> string) list"
  body :: "string option"

text \<open>
  What the client reads of a \<open>Response\<close>: the status, the outcome of \<open>response.json()\<close>
  (\<open>Inl\<close> when it rejects) and the \<open>X-CSRF-Token\<close> response header.  \<open>response.ok\<close> is
  defined by the Fetch standard from the status.
\<close>

record Response =
  status :: nat
  jsonBody :: "JsError + json"
  csrfHeader :: "string option"

definition ok :: "Response \<Rightarrow> bool" where
  "ok response = (200 \<le> status response \<and> status response \<le> 299)"

datatype FetchOutcome = Responded Response | Rejected JsError

record ContactInfo =
  name :: string
  email :: string
  phone :: "string option"

record Metadata =
  userAgent :: "string option"
  referrer :: "string option"
  timestamp :: string

record AssessmentSubmissionPayload =
  assessment :: json
  contactInfo :: ContactInfo
  leadSource :: "string option"
  metadata :: "Metadata option"

text \<open>
  The world the client runs in.  The CSRF token module (\<open>csrfToken.ts\<close>), \<open>fetch\<close>,
  \<open>JSON.stringify\<close> and the browser globals are outside the module, so they are
  parameters; those that can answer differently at each attempt of \<open>apiFetch\<close> take the
  attempt number.  \<open>fetchCsrfToken\<close> gives \<open>None\<close> when it rejects,
  \<open>refreshCsrfToken\<close> is \<open>False\<close> when it rejects.
\<close>

record ApiEnv =
  IS_TEST_ENV :: bool
  API_BASE_URL :: string
  getCsrfToken :: "nat \<Rightarrow> string option"
  fetchCsrfToken :: "nat \<Rightarrow> string option"
  refreshCsrfToken :: bool
  fetch :: "nat \<Rightarrow> FetchOutcome"
  JSON_stringify :: "AssessmentSubmissionPayload \<Rightarrow> string"
  navigator_userAgent :: string
  document_referrer :: string
  now_toISOString :: string

text \<open>What a call of \<open>apiFetch\<close> does to the outside, in order.\<close>

datatype Event =
    Fetched string "string option" "(string \<times> string) list" "string option"
  | RefreshCsrfToken
  | Slept nat
  | SetCsrfToken string

fun isFetched :: "Event \<Rightarrow> bool" where
  "isFetched (Fetched u m hs b) = True"
| "isFetched e = False"

definition fetchCount :: "Event list \<Rightarrow> nat" where
  "fetchCount evs = length (filter isFetched evs)"

section \<open>API client: retry policy and CSRF helpers\<close>

definition getRetryDelay :: "nat \<Rightarrow> RetryConfig \<Rightarrow> nat" where
  "getRetryDelay attempt config =
     (let delay = baseDelay config * 2 ^ attempt in min delay (maxDelay config))"

fun isRetryableError :: "JsError \<Rightarrow> bool" where
  "isRetryableError (ApiError msg c statusCode) =
     (c = NETWORK_ERROR \<or> c = TIMEOUT_ERROR \<or>
      (case statusCode of None \<Rightarrow> False | Some n \<Rightarrow> n \<ge> 500))"
| "isRetryableError (OtherError nm isTypeError) = isTypeError"

text \<open>JavaScript truthiness of a possibly absent string.\<close>

fun truthy :: "string option \<Rightarrow> bool" where
  "truthy None = False"
| "truthy (Some s) = (s \<noteq> [])"

definition getCsrfTokenForRequest :: "ApiEnv \<Rightarrow> nat \<Rightarrow> string option" where
  "getCsrfTokenForRequest env attempt =
     (if IS_TEST_ENV env then Some ''test-csrf-token''
      else let token = getCsrfToken env attempt
           in if \<not> truthy token then fetchCsrfToken env attempt else token)"

definition requiresCsrfToken :: "string option \<Rightarrow> bool" where
  "requiresCsrfToken m =
     (let stateChangingMethods = [''POST'', ''PUT'', ''DELETE'', ''PATCH'']
      in toUpperCase (case m of None \<Rightarrow> ''GET'' | Some s \<Rightarrow> s) \<in> set stateChangingMethods)"

definition mapHttpStatusToErrorCode :: "nat \<Rightarrow> ApiErrorCode" where
  "mapHttpStatusToErrorCode st =
     (if st = 400 then VALIDATION_ERROR
      else if st = 401 then UNAUTHORIZED
      else if st = 403 then FORBIDDEN
      else if st = 404 then NOT_FOUND
      else if st = 429 then RATE_LIMIT
      else if st = 500 \<or> st = 502 \<or> st = 503 \<or> st = 504 then SERVER_ERROR
      else UNKNOWN_ERROR)"


section \<open>API client: apiFetch\<close>

text \<open>\<open>a || b || fallback\<close> on possibly absent strings.\<close>

definition orElse :: "string option \<Rightarrow> string option \<Rightarrow> string \<Rightarrow> string" where
  "orElse a b fallback =
     (case a of
        Some x \<Rightarrow> (if x \<noteq> [] then x
                   else (case b of Some y \<Rightarrow> (if y \<noteq> [] then y else fallback)
                                 | None \<Rightarrow> fallback))
      | None \<Rightarrow> (case b of Some y \<Rightarrow> (if y \<noteq> [] then y else fallback)
                         | None \<Rightarrow> fallback))"

text \<open>\<open>await response.json().catch(() => ({}))\<close>.\<close>

definition errorDataOf :: "Response \<Rightarrow> json" where
  "errorDataOf response = (case jsonBody response of Inr j \<Rightarrow> j | Inl e \<Rightarrow> [])"

definition isCsrfError :: "json \<Rightarrow> bool" where
  "isCsrfError errorData =
     (map_of errorData ''code'' = Some ''CSRF_TOKEN_INVALID'' \<or>
      map_of errorData ''code'' = Some ''CSRF_TOKEN_MISSING'' \<or>
      (case map_of errorData ''message'' of
         None \<Rightarrow> False
       | Some m \<Rightarrow> includesStr (toLowerCase m) ''csrf''))"

definition failure :: "string \<Rightarrow> ApiErrorCode \<Rightarrow> ApiResponse" where
  "failure msg c = \<lparr> success = False, data = None, error = Some msg, code = Some c \<rparr>"

text \<open>
  How one pass through the body of the \<open>for\<close> loop ends.  The abort timer shows as a
  \<open>fetch\<close> rejected with an error named \<open>AbortError\<close>; the development-only logging has
  no effect on the result; the dynamic import of \<open>setCsrfToken\<close> is taken to succeed.
\<close>

datatype Step =
    Return ApiResponse
  | Continue "JsError option"
  | Break "JsError option"

text \<open>
  The request headers: \<open>Content-Type\<close>, overridden by the caller's headers, and the
  token under \<open>X-CSRF-Token\<close> when one is to be used and is truthy.
\<close>

definition requestHeaders :: "ApiEnv \<Rightarrow> RequestInit \<Rightarrow> nat \<Rightarrow> (string \<times> string) list" where
  "requestHeaders env options attempt =
     (let base = headers options @ [(''Content-Type'', ''application/json'')];
          shouldUseCsrf = requiresCsrfToken (requestMethod options) \<and> \<not> IS_TEST_ENV env
      in if shouldUseCsrf
         then (case getCsrfTokenForRequest env attempt of
                 Some csrfToken \<Rightarrow>
                   (if csrfToken \<noteq> [] then (''X-CSRF-Token'', csrfToken) # base else base)
               | None \<Rightarrow> base)
         else base)"

text \<open>The \<open>catch\<close> block; \<open>evs\<close> are the events of the \<open>try\<close> block so far.\<close>

definition errorNameOf :: "JsError \<Rightarrow> string option" where
  "errorNameOf e = (case e of ApiError msg c sc \<Rightarrow> Some ''ApiError'' | OtherError nm t \<Rightarrow> nm)"

definition instanceofTypeError :: "JsError \<Rightarrow> bool" where
  "instanceofTypeError e = (case e of ApiError msg c sc \<Rightarrow> False | OtherError nm t \<Rightarrow> t)"

definition classifyError :: "JsError \<Rightarrow> JsError" where
  "classifyError e =
     (let lastError = e;
          lastError = (if errorNameOf e = Some ''AbortError''
                       then ApiError ''Request timeout. Please try again.'' TIMEOUT_ERROR None
                       else lastError);
          lastError = (if instanceofTypeError e
                       then ApiError ''Network error. Please check your connection.''
                              NETWORK_ERROR None
                       else lastError)
      in lastError)"

definition catchBlock :: "RetryConfig \<Rightarrow> nat \<Rightarrow> JsError \<Rightarrow> Event list \<Rightarrow> Step \<times> Event list" where
  "catchBlock retryConfig attempt e evs =
     (let lastError = classifyError e
      in if attempt < maxRetries retryConfig \<and> isRetryableError lastError
         then (Continue (Some lastError), evs @ [Slept (getRetryDelay attempt retryConfig)])
         else (Break (Some lastError), evs))"

definition csrfExpired :: ApiResponse where
  "csrfExpired =
     failure ''Security token expired. Please refresh the page and try again.''
       CSRF_TOKEN_INVALID"

definition loopBody ::
  "ApiEnv \<Rightarrow> string \<Rightarrow> RequestInit \<Rightarrow> RetryConfig \<Rightarrow> nat \<Rightarrow> JsError option \<Rightarrow> Step \<times> Event list"
where
  "loopBody env url options retryConfig attempt lastError =
     (let shouldUseCsrf = requiresCsrfToken (requestMethod options) \<and> \<not> IS_TEST_ENV env;
          sent = Fetched url (requestMethod options) (requestHeaders env options attempt) (body options)
      in case fetch env attempt of
           Rejected e \<Rightarrow> catchBlock retryConfig attempt e [sent]
         | Responded response \<Rightarrow>
             if status response = 403 \<and> shouldUseCsrf then
               (let errorData = errorDataOf response
                in if isCsrfError errorData then
                     (if attempt = 0 then
                        (if refreshCsrfToken env
                         then (Continue lastError, [sent, RefreshCsrfToken])
                         else (Return csrfExpired, [sent, RefreshCsrfToken]))
                      else (Return csrfExpired, [sent]))
                   else
                     (Return (failure (orElse (map_of errorData ''error'')
                                         (map_of errorData ''message'') ''Access forbidden'')
                                FORBIDDEN),
                      [sent]))
             else if \<not> ok response then
               (let errorData = errorDataOf response;
                    errorCode = mapHttpStatusToErrorCode (status response);
                    apiError = ApiError (orElse (map_of errorData ''error'')
                                           (map_of errorData ''message'') ''Request failed'')
                                 errorCode (Some (status response))
                in if status response \<ge> 400 \<and> status response < 500
                   then (Return (failure (orElse (map_of errorData ''error'')
                                            (map_of errorData ''message'') ''Request failed'')
                                   errorCode),
                         [sent])
                   else catchBlock retryConfig attempt apiError [sent])
             else
               (case jsonBody response of
                  Inl e \<Rightarrow> catchBlock retryConfig attempt e [sent]
                | Inr d \<Rightarrow>
                    (Return \<lparr> success = True, data = Some d, error = None, code = None \<rparr>,
                     sent # (if truthy (csrfHeader response)
                             then [SetCsrfToken (the (csrfHeader response))] else []))))"

text \<open>After the loop: \<open>lastError\<close> decides the failure that is returned.\<close>

definition afterLoop :: "JsError option \<Rightarrow> ApiResponse" where
  "afterLoop lastError =
     (case lastError of
        Some (ApiError msg c sc) \<Rightarrow> failure msg c
      | Some (OtherError nm t) \<Rightarrow>
          failure ''An unexpected error occurred. Please try again.'' UNKNOWN_ERROR
      | None \<Rightarrow> failure ''An unexpected error occurred. Please try again.'' UNKNOWN_ERROR)"

text \<open>
  \<open>for (let attempt = 0; attempt <= retryConfig.maxRetries; attempt++)\<close>, entered at
  \<open>attempt\<close> with the current \<open>lastError\<close>.  The result is the response together with the
  events of the call.
\<close>

function apiFetchLoop ::
  "ApiEnv \<Rightarrow> string \<Rightarrow> RequestInit \<Rightarrow> RetryConfig \<Rightarrow> nat \<Rightarrow> JsError option
     \<Rightarrow> ApiResponse \<times> Event list"
where
  "apiFetchLoop env url options retryConfig attempt lastError =
     (if attempt \<le> maxRetries retryConfig then
        (case loopBody env url options retryConfig attempt lastError of
           (Return r, evs) \<Rightarrow> (r, evs)
         | (Continue lastError', evs) \<Rightarrow>
             (case apiFetchLoop env url options retryConfig (Suc attempt) lastError' of
                (r, evs') \<Rightarrow> (r, evs @ evs'))
         | (Break lastError', evs) \<Rightarrow> (afterLoop lastError', evs))
      else (afterLoop lastError, []))"
  by pat_completeness auto
termination
  by (relation "measure (\<lambda>(env, url, options, retryConfig, attempt, lastError).
                  Suc (maxRetries retryConfig) - attempt)") auto

definition apiFetch ::
  "ApiEnv \<Rightarrow> string \<Rightarrow> RequestInit \<Rightarrow> RetryConfig \<Rightarrow> ApiResponse \<times> Event list" where
  "apiFetch env url options retryConfig = apiFetchLoop env url options retryConfig 0 None"


section \<open>API client: submitAssessment\<close>

text \<open>
  The regular expressions of \<open>isValidEmail\<close> and \<open>isValidPhone\<close> are anchored at both
  ends, so \<open>test\<close> asks whether the whole string matches.  A small matcher decides
  that: \<open>step\<close> gives what remains to be matched after reading one character.
\<close>

datatype rx =
    RNone
  | REps
  | RIn "char list"
  | RNotIn "char list"
  | RSeq rx rx
  | RAlt rx rx
  | RStar rx

fun matchesEmpty :: "rx \<Rightarrow> bool" where
  "matchesEmpty RNone = False"
| "matchesEmpty REps = True"
| "matchesEmpty (RIn cs) = False"
| "matchesEmpty (RNotIn cs) = False"
| "matchesEmpty (RSeq r1 r2) = (matchesEmpty r1 \<and> matchesEmpty r2)"
| "matchesEmpty (RAlt r1 r2) = (matchesEmpty r1 \<or> matchesEmpty r2)"
| "matchesEmpty (RStar r) = True"

fun step :: "rx \<Rightarrow> char \<Rightarrow> rx" where
  "step RNone c = RNone"
| "step REps c = RNone"
| "step (RIn cs) c = (if c \<in> set cs then REps else RNone)"
| "step (RNotIn cs) c = (if c \<in> set cs then RNone else REps)"
| "step (RSeq r1 r2) c =
     (if matchesEmpty r1 then RAlt (RSeq (step r1 c) r2) (step r2 c)
      else RSeq (step r1 c) r2)"
| "step (RAlt r1 r2) c = RAlt (step r1 c) (step r2 c)"
| "step (RStar r) c = RSeq (step r c) (RStar r)"

definition rxTest :: "rx \<Rightarrow> string \<Rightarrow> bool" where
  "rxTest r s = matchesEmpty (foldl step r s)"

text \<open>\<open>r+\<close> and \<open>r{n,}\<close>.\<close>

definition RPlus :: "rx \<Rightarrow> rx" where
  "RPlus r = RSeq r (RStar r)"

fun RAtLeast :: "nat \<Rightarrow> rx \<Rightarrow> rx" where
  "RAtLeast 0 r = RStar r"
| "RAtLeast (Suc n) r = RSeq r (RAtLeast n r)"

text \<open>\<open>/^[^\s@]+@[^\s@]+\.[^\s@]+$/\<close>\<close>

definition emailRegex :: rx where
  "emailRegex =
     (let word = RPlus (RNotIn (whiteSpaceChars @ ''@''))
      in RSeq word (RSeq (RIn ''@'') (RSeq word (RSeq (RIn ''.'') word))))"

definition isValidEmail :: "string \<Rightarrow> bool" where
  "isValidEmail s = rxTest emailRegex s"

text \<open>\<open>/^[\d\s\-\+\(\)]{10,}$/\<close>\<close>

definition phoneRegex :: rx where
  "phoneRegex = RAtLeast 10 (RIn (''0123456789'' @ whiteSpaceChars @ ''-+()''))"

definition isValidPhone :: "string \<Rightarrow> bool" where
  "isValidPhone s = rxTest phoneRegex s"

text \<open>
  \<open>requestPayload\<close>: the payload with its metadata completed from the browser; the
  properties of \<open>payload.metadata\<close> win over the browser's.
\<close>

definition requestPayload :: "ApiEnv \<Rightarrow> AssessmentSubmissionPayload \<Rightarrow> AssessmentSubmissionPayload" where
  "requestPayload env payload =
     payload\<lparr> metadata := Some
       \<lparr> userAgent =
           (case metadata payload of
              None \<Rightarrow> Some (navigator_userAgent env)
            | Some m \<Rightarrow> (case userAgent m of
                           None \<Rightarrow> Some (navigator_userAgent env) | Some u \<Rightarrow> Some u)),
         referrer =
           (case metadata payload of
              None \<Rightarrow> Some (document_referrer env)
            | Some m \<Rightarrow> (case referrer m of
                           None \<Rightarrow> Some (document_referrer env) | Some u \<Rightarrow> Some u)),
         timestamp =
           (case metadata payload of
              None \<Rightarrow> now_toISOString env
            | Some m \<Rightarrow> timestamp m) \<rparr> \<rparr>"

definition submitAssessment :: "ApiEnv \<Rightarrow> AssessmentSubmissionPayload \<Rightarrow> ApiResponse \<times> Event list" where
  "submitAssessment env payload =
     (if email (contactInfo payload) = [] \<or> \<not> isValidEmail (email (contactInfo payload))
      then (failure ''Please provide a valid email address'' INVALID_EMAIL, [])
      else if truthy (phone (contactInfo payload)) \<and>
              \<not> isValidPhone (the (phone (contactInfo payload)))
      then (failure ''Please provide a valid phone number'' INVALID_PHONE, [])
      else if name (contactInfo payload) = [] \<or> length (trim (name (contactInfo payload))) < 2
      then (failure ''Please provide a valid name'' VALIDATION_ERROR, [])
      else apiFetch env (API_BASE_URL env @ ''/api/assessment/submit'')
             \<lparr> requestMethod = Some ''POST'', headers = [],
               body = Some (JSON_stringify env (requestPayload env payload)) \<rparr>
             DEFAULT_RETRY_CONFIG)"

section \<open>Vocabulary for the events of a call\<close>

declare apiFetchLoop.simps [simp del]

text \<open>The request that attempt \<open>attempt\<close> of \<open>apiFetch\<close> sends.\<close>

definition sentRequest :: "ApiEnv \<Rightarrow> string \<Rightarrow> RequestInit \<Rightarrow> nat \<Rightarrow> Event" where
  "sentRequest env url options attempt =
     Fetched url (requestMethod options) (requestHeaders env options attempt) (body options)"

text \<open>
  What follows the request among the events of one pass through the loop: no further
  request, and a token refresh at most once and only at attempt 0.
\<close>

definition quietTail :: "nat \<Rightarrow> Event list \<Rightarrow> bool" where
  "quietTail attempt rest =
     ((\<forall>x \<in> set rest. \<not> isFetched x) \<and>
      (attempt \<noteq> 0 \<longrightarrow> RefreshCsrfToken \<notin> set rest) \<and>
      count_list rest RefreshCsrfToken \<le> 1)"

text \<open>
  A 403 response that the CSRF branch of \<open>apiFetch\<close> handles: CSRF is in use for the
  request and the body is classified as a CSRF error.
\<close>

definition csrfHandled :: "ApiEnv \<Rightarrow> RequestInit \<Rightarrow> Response \<Rightarrow> bool" where
  "csrfHandled env options response =
     (status response = 403 \<and>
      (requiresCsrfToken (requestMethod options) \<and> \<not> IS_TEST_ENV env) \<and>
      isCsrfError (errorDataOf response))"


text \<open>A world whose server answers every request with 404, and a plain GET request.\<close>

definition notFound :: Response where
  "notFound =
     \<lparr> status = 404, jsonBody = Inr [(''error'', ''No such assessment'')], csrfHeader = None \<rparr>"

definition notFoundEnv :: ApiEnv where
  "notFoundEnv =
     \<lparr> IS_TEST_ENV = False, API_BASE_URL = ''https://api.example.org'',
       getCsrfToken = (\<lambda>n. Some ''token-1''), fetchCsrfToken = (\<lambda>n. None),
       refreshCsrfToken = True,
       fetch = (\<lambda>n. Responded notFound),
       JSON_stringify = (\<lambda>p. ''{}''), navigator_userAgent = ''agent'',
       document_referrer = [], now_toISOString = ''2025-01-01T00:00:00.000Z'' \<rparr>"

definition getOptions :: RequestInit where
  "getOptions = \<lparr> requestMethod = None, headers = [], body = None \<rparr>"

text \<open>
  Example worlds.  \<open>csrfOnceEnv\<close>: the server rejects the first request with a CSRF 403
  and accepts the next; \<open>csrfStuckEnv\<close>: the same, and the token refresh fails;
  \<open>csrfLaterEnv\<close>: a 503 first, then the CSRF 403; \<open>csrfThenBusyEnv\<close>: the CSRF 403,
  then a 503, then success; \<open>busyEnv\<close>: always 503; \<open>vitestEnv\<close>: \<open>csrfOnceEnv\<close> under
  the test runner.
\<close>

definition csrfRejection :: Response where
  "csrfRejection =
     \<lparr> status = 403, jsonBody = Inr [(''code'', ''CSRF_TOKEN_INVALID'')], csrfHeader = None \<rparr>"

definition accepted :: Response where
  "accepted =
     \<lparr> status = 200, jsonBody = Inr [(''assessmentId'', ''a-1''), (''leadId'', ''l-1'')],
       csrfHeader = None \<rparr>"

definition unavailable :: Response where
  "unavailable = \<lparr> status = 503, jsonBody = Inl (OtherError (Some ''SyntaxError'') False),
                   csrfHeader = None \<rparr>"

definition csrfOnceEnv :: ApiEnv where
  "csrfOnceEnv =
     \<lparr> IS_TEST_ENV = False, API_BASE_URL = ''https://api.example.org'',
       getCsrfToken = (\<lambda>n. Some ''token-1''), fetchCsrfToken = (\<lambda>n. None),
       refreshCsrfToken = True,
       fetch = (\<lambda>n. if n = 0 then Responded csrfRejection else Responded accepted),
       JSON_stringify = (\<lambda>p. ''{}''), navigator_userAgent = ''agent'',
       document_referrer = [], now_toISOString = ''2025-01-01T00:00:00.000Z'' \<rparr>"

definition csrfLaterEnv :: ApiEnv where
  "csrfLaterEnv =
     csrfOnceEnv\<lparr> fetch := (\<lambda>n. if n = 0 then Responded unavailable else Responded csrfRejection) \<rparr>"

definition csrfThenBusyEnv :: ApiEnv where
  "csrfThenBusyEnv =
     csrfOnceEnv\<lparr> fetch := (\<lambda>n. if n = 0 then Responded csrfRejection
                              else if n = 1 then Responded unavailable
                              else Responded accepted) \<rparr>"

definition busyEnv :: ApiEnv where
  "busyEnv = csrfOnceEnv\<lparr> fetch := (\<lambda>n. Responded unavailable) \<rparr>"

definition postOptions :: RequestInit where
  "postOptions = \<lparr> requestMethod = Some ''POST'', headers = [], body = Some ''{}'' \<rparr>"

definition csrfStuckEnv :: ApiEnv where
  "csrfStuckEnv = csrfOnceEnv\<lparr> refreshCsrfToken := False \<rparr>"

definition vitestEnv :: ApiEnv where
  "vitestEnv = csrfOnceEnv\<lparr> IS_TEST_ENV := True \<rparr>"

text \<open>The three checks \<open>submitAssessment\<close> makes on the contact record, as it writes them.\<close>

definition emailInvalid :: "ContactInfo \<Rightarrow> bool" where
  "emailInvalid c = (email c = [] \<or> \<not> isValidEmail (email c))"

definition phoneInvalid :: "ContactInfo \<Rightarrow> bool" where
  "phoneInvalid c = (truthy (phone c) \<and> \<not> isValidPhone (the (phone c)))"

definition nameInvalid :: "ContactInfo \<Rightarrow> bool" where
  "nameInvalid c = (name c = [] \<or> length (trim (name c)) < 2)"

text \<open>The options \<open>submitAssessment\<close> passes to \<open>apiFetch\<close>.\<close>

definition submitRequest :: "ApiEnv \<Rightarrow> AssessmentSubmissionPayload \<Rightarrow> RequestInit" where
  "submitRequest env payload =
     \<lparr> requestMethod = Some ''POST'', headers = [],
       body = Some (JSON_stringify env (requestPayload env payload)) \<rparr>"

text \<open>A contact record that passes the three checks, and a payload around a contact record.\<close>

definition contactOk :: ContactInfo where
  "contactOk = \<lparr> name = ''Jane Doe'', email = ''jane.doe@example.com'',
                 phone = Some ''(555) 123-4567'' \<rparr>"

definition samplePayload :: "ContactInfo \<Rightarrow> AssessmentSubmissionPayload" where
  "samplePayload c =
     \<lparr> assessment = [(''painDuration'', ''more_than_6_months'')], contactInfo = c,
       leadSource = None, metadata = None \<rparr>"

section \<open>Verified properties: quiz state store\<close>


lemma quizReducer_status:
  "qualificationStatus (quizReducer qid state a) =
     (case a of
        SET_QUALIFICATION_STATUS p \<Rightarrow>
          (case payloadQualificationStatus p of
             Some v \<Rightarrow> v | None \<Rightarrow> qualificationStatus state)
      | RESET \<Rightarrow> StatusUnset
      | _ \<Rightarrow> qualificationStatus state)"
  by (cases a) (simp_all add: spreadQualification_def initialState_def)



text \<open>
  C9.  A \<open>SET_*\<close> action changes only the fields it names: every other field of the
  state keeps its value.  \<open>SET_CONTACT_INFO\<close> sets \<open>name\<close>, \<open>email\<close> and \<open>phone\<close> from
  its payload, and \<open>quizId\<close>, \<open>currentStep\<close> and all answer and routing fields keep
  their values.
\<close>

theorem quizReducer_frame:
  "(designated a = Some fs \<and> f \<notin> set fs \<longrightarrow> sameField f (quizReducer qid state a) state) \<and>
   QuizState.name (quizReducer qid state (SET_CONTACT_INFO p)) = payloadName p \<and>
   QuizState.email (quizReducer qid state (SET_CONTACT_INFO p)) = payloadEmail p \<and>
   QuizState.phone (quizReducer qid state (SET_CONTACT_INFO p)) = payloadPhone p \<and>
   (f \<notin> {F_name, F_email, F_phone} \<longrightarrow>
      sameField f (quizReducer qid state (SET_CONTACT_INFO p)) state)"
proof -
  have frame: "sameField f (quizReducer qid state b) state"
    if "designated b = Some gs" and "f \<notin> set gs" for b gs
    using that
    by (cases b; cases f) (auto simp add: spreadQualification_def split: option.splits)
  have contact: "sameField f (quizReducer qid state (SET_CONTACT_INFO p)) state"
    if "f \<notin> {F_name, F_email, F_phone}"
    using that frame [of "SET_CONTACT_INFO p" "[F_name, F_email, F_phone]"] by simp
  show ?thesis using frame contact by simp
qed

theorem quizReducer_frame_witness:
  "designated (SET_CONTACT_INFO
       \<lparr> payloadName = ''Ann'', payloadEmail = ''ann@x.org'', payloadPhone = ''5551234567'' \<rparr>)
     = Some [F_name, F_email, F_phone] \<and>
   F_currentStep \<notin> set [F_name, F_email, F_phone] \<and>
   currentStep (quizReducer ''quiz_1'' ((initialState ''quiz_1'')\<lparr>currentStep := 7\<rparr>)
     (SET_CONTACT_INFO
       \<lparr> payloadName = ''Ann'', payloadEmail = ''ann@x.org'', payloadPhone = ''5551234567'' \<rparr>))
     = 7 \<and>
   QuizState.name (quizReducer ''quiz_1'' ((initialState ''quiz_1'')\<lparr>currentStep := 7\<rparr>)
     (SET_CONTACT_INFO
       \<lparr> payloadName = ''Ann'', payloadEmail = ''ann@x.org'', payloadPhone = ''5551234567'' \<rparr>))
     = ''Ann''"
  using quizReducer_frame [of
      "SET_CONTACT_INFO
         \<lparr> payloadName = ''Ann'', payloadEmail = ''ann@x.org'', payloadPhone = ''5551234567'' \<rparr>"
      "[F_name, F_email, F_phone]" F_currentStep "''quiz_1''"
      "(initialState ''quiz_1'')\<lparr>currentStep := 7\<rparr>"
      "\<lparr> payloadName = ''Ann'', payloadEmail = ''ann@x.org'', payloadPhone = ''5551234567'' \<rparr>"]
  by (simp add: initialState_def)

text \<open>
  C10.  \<open>PREV_STEP\<close> gives \<open>currentStep = max(1, currentStep - 1)\<close>, so after one or more
  \<open>PREV_STEP\<close> actions \<open>currentStep\<close> is at least 1; \<open>NEXT_STEP\<close> gives
  \<open>currentStep + 1\<close>.
\<close>

theorem quizReducer_steps:
  "currentStep (quizReducer qid state PREV_STEP) = max 1 (currentStep state - 1) \<and>
   1 \<le> currentStep (((\<lambda>s. quizReducer qid s PREV_STEP) ^^ Suc n) state) \<and>
   currentStep (quizReducer qid state NEXT_STEP) = currentStep state + 1"
  by simp

section \<open>Verified properties: routing and e-mail validation\<close>

text \<open>
  C3.  \<open>determineRoute\<close> returns \<open>/disqualified\<close> when at least one condition is selected
  and every selected condition is non-treatable, \<open>/condition-confirmation\<close> when at
  least one selected condition is treatable, \<open>/condition-confirmation\<close> when no
  condition is selected and the other-conditions text is non-empty after trimming, and
  \<open>/disqualified\<close> otherwise.
\<close>

theorem determineRoute_cases:
  "(selectedConditions \<noteq> [] \<and> (\<forall>c \<in> set selectedConditions. \<not> isConditionTreatable c) \<longrightarrow>
      determineRoute isConditionTreatable selectedConditions otherConditions
        = ''/disqualified'') \<and>
   ((\<exists>c \<in> set selectedConditions. isConditionTreatable c) \<longrightarrow>
      determineRoute isConditionTreatable selectedConditions otherConditions
        = ''/condition-confirmation'') \<and>
   (selectedConditions = [] \<and> trim otherConditions \<noteq> [] \<longrightarrow>
      determineRoute isConditionTreatable selectedConditions otherConditions
        = ''/condition-confirmation'') \<and>
   (\<not> (selectedConditions \<noteq> [] \<and> (\<forall>c \<in> set selectedConditions. \<not> isConditionTreatable c)) \<and>
    \<not> (\<exists>c \<in> set selectedConditions. isConditionTreatable c) \<and>
    \<not> (selectedConditions = [] \<and> trim otherConditions \<noteq> []) \<longrightarrow>
      determineRoute isConditionTreatable selectedConditions otherConditions
        = ''/disqualified'')"
  by (auto simp add: determineRoute_def Let_def list_ex_iff)

theorem determineRoute_cases_witness:
  "determineRoute (\<lambda>c. c = ''chronic-back-pain'') [''fibromyalgia''] [] = ''/disqualified'' \<and>
   determineRoute (\<lambda>c. c = ''chronic-back-pain'') [''fibromyalgia'', ''chronic-back-pain''] []
     = ''/condition-confirmation'' \<and>
   determineRoute (\<lambda>c. c = ''chronic-back-pain'') [] ''  knee pain '' = ''/condition-confirmation'' \<and>
   determineRoute (\<lambda>c. c = ''chronic-back-pain'') [] ''   '' = ''/disqualified''"
proof -
  have ws: "trim ''  knee pain '' \<noteq> []" "trim ''   '' = []"
    by (simp_all add: trim_def isWhiteSpace_def whiteSpaceChars_def)
  show ?thesis
    using determineRoute_cases [of "[''fibromyalgia'']" "\<lambda>c. c = ''chronic-back-pain''" "[]"]
      determineRoute_cases [of "[''fibromyalgia'', ''chronic-back-pain'']"
        "\<lambda>c. c = ''chronic-back-pain''" "[]"]
      determineRoute_cases [of "[]" "\<lambda>c. c = ''chronic-back-pain''" "''  knee pain ''"]
      determineRoute_cases [of "[]" "\<lambda>c. c = ''chronic-back-pain''" "''   ''"]
      ws
    by simp
qed

text \<open>
  \<open>handleSubmit\<close> navigates only after \<open>validateSubmission\<close>, to the route of
  \<open>determineRoute\<close>; then a condition is selected or the other-conditions text is not
  blank.
\<close>

lemma handleSubmit_route:
  "handleSubmit isConditionTreatable selectedConditions otherConditions = Some (route, d) \<Longrightarrow>
     route = determineRoute isConditionTreatable selectedConditions otherConditions \<and>
     d = (route = ''/disqualified'') \<and>
     (selectedConditions \<noteq> [] \<or> trim otherConditions \<noteq> [])"
  by (auto simp add: handleSubmit_def validateSubmission_def Let_def split: if_splits)

text \<open>
  C8.  \<open>validateEmail\<close> is true exactly when the input is non-empty and its
  \<open>sanitizeEmail\<close> result is non-empty, has no two consecutive dots and matches
  \<open>EMAIL_REGEX\<close>: the format check sees the sanitized string, not the input.
\<close>

theorem validateEmail_iff:
  "validateEmail env emailStr \<longleftrightarrow>
     emailStr \<noteq> [] \<and>
     sanitizeEmail env emailStr \<noteq> [] \<and>
     \<not> includesStr (sanitizeEmail env emailStr) ''..'' \<and>
     EMAIL_REGEX_test env (sanitizeEmail env emailStr)"
  by (simp add: validateEmail_def Let_def)

section \<open>Verified properties: API client\<close>

lemma catchBlock_events:
  "\<exists>rest. snd (catchBlock cfg attempt e [x]) = x # rest \<and> quietTail attempt rest"
  by (simp add: catchBlock_def Let_def quietTail_def)

lemma loopBody_events:
  "\<exists>rest. snd (loopBody env url options cfg attempt le) = sentRequest env url options attempt # rest \<and>
     quietTail attempt rest"
proof (cases "fetch env attempt")
  case (Rejected e)
  then show ?thesis
    using catchBlock_events [of cfg attempt e "sentRequest env url options attempt"]
    by (simp add: loopBody_def sentRequest_def Let_def)
next
  case (Responded r)
  show ?thesis
  proof (cases "status r = 403 \<and> requiresCsrfToken (requestMethod options) \<and> \<not> IS_TEST_ENV env")
    case True
    then show ?thesis using Responded
      by (simp add: loopBody_def sentRequest_def Let_def quietTail_def)
  next
    case notCsrf: False
    show ?thesis
    proof (cases "ok r")
      case False
      then show ?thesis using Responded notCsrf
        catchBlock_events [of cfg attempt _ "sentRequest env url options attempt"]
        by (simp add: loopBody_def sentRequest_def Let_def quietTail_def)
    next
      case True
      then show ?thesis using Responded notCsrf
        catchBlock_events [of cfg attempt _ "sentRequest env url options attempt"]
        by (cases "jsonBody r") (simp_all add: loopBody_def sentRequest_def Let_def quietTail_def)
    qed
  qed
qed


lemma apiFetchLoop_exit:
  "\<not> attempt \<le> maxRetries cfg \<Longrightarrow>
     apiFetchLoop env url options cfg attempt le = (afterLoop le, [])"
  by (simp add: apiFetchLoop.simps [of env url options cfg attempt le])

lemma apiFetchLoop_Return:
  "attempt \<le> maxRetries cfg \<Longrightarrow> loopBody env url options cfg attempt le = (Return r, evs) \<Longrightarrow>
     apiFetchLoop env url options cfg attempt le = (r, evs)"
  by (simp add: apiFetchLoop.simps [of env url options cfg attempt le])

lemma apiFetchLoop_Break:
  "attempt \<le> maxRetries cfg \<Longrightarrow> loopBody env url options cfg attempt le = (Break le', evs) \<Longrightarrow>
     apiFetchLoop env url options cfg attempt le = (afterLoop le', evs)"
  by (simp add: apiFetchLoop.simps [of env url options cfg attempt le])

lemma apiFetchLoop_Continue:
  "attempt \<le> maxRetries cfg \<Longrightarrow> loopBody env url options cfg attempt le = (Continue le', evs) \<Longrightarrow>
     apiFetchLoop env url options cfg attempt le =
       (fst (apiFetchLoop env url options cfg (Suc attempt) le'),
        evs @ snd (apiFetchLoop env url options cfg (Suc attempt) le'))"
  by (simp add: apiFetchLoop.simps [of env url options cfg attempt le] split: prod.splits)

text \<open>Events of the loop: those of the body at \<open>attempt\<close>, then those of the rest.\<close>

lemma apiFetchLoop_trace:
  "attempt \<le> maxRetries cfg \<Longrightarrow>
     snd (apiFetchLoop env url options cfg attempt le) =
       snd (loopBody env url options cfg attempt le) @
       (case fst (loopBody env url options cfg attempt le) of
          Continue le' \<Rightarrow> snd (apiFetchLoop env url options cfg (Suc attempt) le')
        | _ \<Rightarrow> [])"
proof -
  assume a: "attempt \<le> maxRetries cfg"
  obtain st evs where lb: "loopBody env url options cfg attempt le = (st, evs)"
    by (cases "loopBody env url options cfg attempt le")
  show ?thesis
    by (cases st)
       (simp_all add: lb apiFetchLoop_Return [OF a] apiFetchLoop_Break [OF a]
          apiFetchLoop_Continue [OF a])
qed

lemma loopBody_fetchCount: "fetchCount (snd (loopBody env url options cfg attempt le)) = 1"
proof -
  obtain rest where r: "snd (loopBody env url options cfg attempt le) = sentRequest env url options attempt # rest"
    and q: "quietTail attempt rest"
    using loopBody_events by blast
  have "filter isFetched rest = []" using q by (simp add: filter_empty_conv quietTail_def)
  then show ?thesis by (simp add: r fetchCount_def sentRequest_def)
qed

lemma fetchCount_append: "fetchCount (xs @ ys) = fetchCount xs + fetchCount ys"
  by (simp add: fetchCount_def)

lemma apiFetchLoop_fetchCount:
  "fetchCount (snd (apiFetchLoop env url options cfg attempt le)) \<le> Suc (maxRetries cfg) - attempt"
proof (induction env url options cfg attempt le rule: apiFetchLoop.induct)
  case (1 env url options cfg attempt le)
  show ?case
  proof (cases "attempt \<le> maxRetries cfg")
    case False
    then show ?thesis by (simp add: apiFetchLoop_exit fetchCount_def)
  next
    case True
    obtain st evs where lb: "loopBody env url options cfg attempt le = (st, evs)"
      by (cases "loopBody env url options cfg attempt le")
    have one: "fetchCount evs = 1"
      using loopBody_fetchCount [of env url options cfg attempt le] lb by simp
    show ?thesis
    proof (cases st)
      case (Continue le')
      have "fetchCount (snd (apiFetchLoop env url options cfg (Suc attempt) le'))
              \<le> Suc (maxRetries cfg) - Suc attempt"
        using "1.IH" [OF True lb [symmetric] Continue] .
      then show ?thesis using True lb one Continue
        by (simp add: apiFetchLoop_trace fetchCount_append)
    qed (use True lb one in \<open>simp_all add: apiFetchLoop_trace fetchCount_append\<close>)
  qed
qed

lemma apiFetchLoop_no_refresh:
  "0 < attempt \<Longrightarrow> RefreshCsrfToken \<notin> set (snd (apiFetchLoop env url options cfg attempt le))"
proof (induction env url options cfg attempt le rule: apiFetchLoop.induct)
  case (1 env url options cfg attempt le)
  show ?case
  proof (cases "attempt \<le> maxRetries cfg")
    case False
    then show ?thesis by (simp add: apiFetchLoop_exit)
  next
    case True
    obtain st evs where lb: "loopBody env url options cfg attempt le = (st, evs)"
      by (cases "loopBody env url options cfg attempt le")
    obtain rest where r: "evs = sentRequest env url options attempt # rest"
      and q: "quietTail attempt rest"
      using loopBody_events [of env url options cfg attempt le] lb by auto
    have here: "RefreshCsrfToken \<notin> set evs"
      using r q "1.prems" by (simp add: quietTail_def sentRequest_def)
    show ?thesis
    proof (cases st)
      case (Continue le')
      have "RefreshCsrfToken \<notin> set (snd (apiFetchLoop env url options cfg (Suc attempt) le'))"
        using "1.IH" [OF True lb [symmetric] Continue] by simp
      then show ?thesis using True lb here Continue by (simp add: apiFetchLoop_trace)
    qed (use True lb here in \<open>simp_all add: apiFetchLoop_trace\<close>)
  qed
qed

lemma apiFetchLoop_fetched:
  "Fetched u m hs b \<in> set (snd (apiFetchLoop env url options cfg attempt le)) \<Longrightarrow>
     \<exists>k. Fetched u m hs b = sentRequest env url options k"
proof (induction env url options cfg attempt le rule: apiFetchLoop.induct)
  case (1 env url options cfg attempt le)
  show ?case
  proof (cases "attempt \<le> maxRetries cfg")
    case False
    then show ?thesis using "1.prems" by (simp add: apiFetchLoop_exit)
  next
    case True
    obtain st evs where lb: "loopBody env url options cfg attempt le = (st, evs)"
      by (cases "loopBody env url options cfg attempt le")
    obtain rest where r: "evs = sentRequest env url options attempt # rest"
      and q: "quietTail attempt rest"
      using loopBody_events [of env url options cfg attempt le] lb by auto
    have here: "Fetched u m hs b \<in> set evs \<Longrightarrow> Fetched u m hs b = sentRequest env url options attempt"
      using r q by (auto simp add: quietTail_def)
    show ?thesis
    proof (cases st)
      case (Continue le')
      have "Fetched u m hs b \<in> set (snd (apiFetchLoop env url options cfg (Suc attempt) le')) \<Longrightarrow>
              \<exists>k. Fetched u m hs b = sentRequest env url options k"
        using "1.IH" [OF True lb [symmetric] Continue] by simp
      then show ?thesis using True lb here Continue "1.prems"
        by (auto simp add: apiFetchLoop_trace)
    qed (use True lb here "1.prems" in \<open>auto simp add: apiFetchLoop_trace\<close>)
  qed
qed

lemma apiFetchLoop_first:
  "attempt \<le> maxRetries cfg \<Longrightarrow>
     \<exists>rest. snd (apiFetchLoop env url options cfg attempt le) =
       sentRequest env url options attempt # rest"
  using loopBody_events [of env url options cfg attempt le]
  by (auto simp add: apiFetchLoop_trace)

text \<open>
  C2.  \<open>getRetryDelay\<close> is \<open>min(baseDelay * 2^n, maxDelay)\<close> for every attempt number
  and configuration, and a call of \<open>apiFetch\<close> sends the request at most
  \<open>maxRetries + 1\<close> times.
\<close>

theorem apiFetch_backoff_bounded:
  "getRetryDelay n config = min (baseDelay config * 2 ^ n) (maxDelay config) \<and>
   fetchCount (snd (apiFetch env url options config)) \<le> maxRetries config + 1"
  using apiFetchLoop_fetchCount [of env url options config 0 None]
  by (simp add: getRetryDelay_def apiFetch_def)

text \<open>The bound is reached: a server that always answers 503 is asked four times.\<close>

lemma apiFetch_backoff_example:
  "apiFetch busyEnv ''/api/assessment/submit'' postOptions DEFAULT_RETRY_CONFIG =
     (failure ''Request failed'' SERVER_ERROR,
      [sentRequest busyEnv ''/api/assessment/submit'' postOptions 0, Slept 1000,
       sentRequest busyEnv ''/api/assessment/submit'' postOptions 1, Slept 2000,
       sentRequest busyEnv ''/api/assessment/submit'' postOptions 2, Slept 4000,
       sentRequest busyEnv ''/api/assessment/submit'' postOptions 3])"
  by code_simp






lemma requestHeaders_plain:
  "\<not> requiresCsrfToken (requestMethod options) \<Longrightarrow>
     requestHeaders env options k = headers options @ [(''Content-Type'', ''application/json'')]"
  by (simp add: requestHeaders_def Let_def)

text \<open>
  C5.  \<open>requiresCsrfToken\<close> is true exactly when the method in upper case is \<open>POST\<close>,
  \<open>PUT\<close>, \<open>DELETE\<close> or \<open>PATCH\<close>, and false for the default method \<open>GET\<close>; for a
  request that is not state-changing, every request \<open>apiFetch\<close> sends carries the
  caller's headers and \<open>Content-Type\<close> only, so no \<open>X-CSRF-Token\<close> is attached.
\<close>

theorem requiresCsrfToken_state_changing:
  "(requiresCsrfToken m \<longleftrightarrow>
      toUpperCase (case m of None \<Rightarrow> ''GET'' | Some s \<Rightarrow> s)
        \<in> {''POST'', ''PUT'', ''DELETE'', ''PATCH''}) \<and>
   \<not> requiresCsrfToken None \<and>
   (\<not> requiresCsrfToken (requestMethod options) \<and>
    Fetched u m' hs b \<in> set (snd (apiFetch env url options cfg)) \<longrightarrow>
      hs = headers options @ [(''Content-Type'', ''application/json'')])"
proof -
  have a: "requiresCsrfToken m \<longleftrightarrow>
      toUpperCase (case m of None \<Rightarrow> ''GET'' | Some s \<Rightarrow> s)
        \<in> {''POST'', ''PUT'', ''DELETE'', ''PATCH''}"
    by (simp add: requiresCsrfToken_def Let_def)
  have b: "\<not> requiresCsrfToken None"
    by (simp add: requiresCsrfToken_def Let_def toUpperCase_def upperChar_def)
  have c: "hs = headers options @ [(''Content-Type'', ''application/json'')]"
    if "\<not> requiresCsrfToken (requestMethod options)"
      and "Fetched u m' hs b \<in> set (snd (apiFetch env url options cfg))"
    using apiFetchLoop_fetched [of u m' hs b env url options cfg 0 None] that
    by (auto simp add: apiFetch_def sentRequest_def requestHeaders_plain)
  show ?thesis using a b c by blast
qed

theorem requiresCsrfToken_state_changing_witness:
  "\<not> requiresCsrfToken (requestMethod getOptions) \<and>
   Fetched ''/api/health'' None [(''Content-Type'', ''application/json'')] None
     \<in> set (snd (apiFetch notFoundEnv ''/api/health'' getOptions DEFAULT_RETRY_CONFIG)) \<and>
   requiresCsrfToken (Some ''post'') \<and> requiresCsrfToken (Some ''Delete'') \<and>
   \<not> requiresCsrfToken (Some ''GET'')"
proof -
  have run: "apiFetch notFoundEnv ''/api/health'' getOptions DEFAULT_RETRY_CONFIG =
      (failure ''No such assessment'' NOT_FOUND,
       [Fetched ''/api/health'' None [(''Content-Type'', ''application/json'')] None])"
    by code_simp
  have m: "toUpperCase ''post'' = ''POST''" "toUpperCase ''Delete'' = ''DELETE''"
    "toUpperCase ''GET'' = ''GET''"
    by code_simp+
  show ?thesis
    using requiresCsrfToken_state_changing [of None getOptions "''/api/health''" None
        "[(''Content-Type'', ''application/json'')]" None notFoundEnv "''/api/health''"
        DEFAULT_RETRY_CONFIG]
      requiresCsrfToken_state_changing [of "Some ''post''"]
      requiresCsrfToken_state_changing [of "Some ''Delete''"]
      requiresCsrfToken_state_changing [of "Some ''GET''"]
      run m
    by (simp add: getOptions_def)
qed

lemma apiFetch_first_pass:
  "apiFetch env url options cfg =
     (case loopBody env url options cfg 0 None of
        (Return r, evs) \<Rightarrow> (r, evs)
      | (Continue le', evs) \<Rightarrow>
          (fst (apiFetchLoop env url options cfg 1 le'),
           evs @ snd (apiFetchLoop env url options cfg 1 le'))
      | (Break le', evs) \<Rightarrow> (afterLoop le', evs))"
  by (simp add: apiFetch_def apiFetchLoop.simps [of env url options cfg 0 None]
        split: prod.splits Step.splits)

lemma loopBody_csrf:
  assumes "fetch env attempt = Responded r" "csrfHandled env options r"
  shows "loopBody env url options cfg attempt le =
           (if attempt = 0
            then (if refreshCsrfToken env
                  then (Continue le, [sentRequest env url options attempt, RefreshCsrfToken])
                  else (Return csrfExpired, [sentRequest env url options attempt, RefreshCsrfToken]))
            else (Return csrfExpired, [sentRequest env url options attempt]))"
  using assms by (simp add: loopBody_def csrfHandled_def sentRequest_def Let_def)

lemma apiFetch_refresh_count:
  "count_list (snd (apiFetch env url options cfg)) RefreshCsrfToken \<le> 1"
proof -
  obtain rest where r: "snd (loopBody env url options cfg 0 None) = sentRequest env url options 0 # rest"
    and q: "quietTail 0 rest"
    using loopBody_events by blast
  have here: "count_list (snd (loopBody env url options cfg 0 None)) RefreshCsrfToken \<le> 1"
    using r q by (simp add: quietTail_def sentRequest_def)
  have later: "count_list (snd (apiFetchLoop env url options cfg (Suc 0) le')) RefreshCsrfToken = 0" for le'
    using apiFetchLoop_no_refresh [of "Suc 0" env url options cfg le'] by (simp add: count_list_0_iff)
  show ?thesis
    using here later
    by (simp add: apiFetch_def apiFetchLoop_trace split: Step.splits)
qed

text \<open>
  C1, as the code has it.  Outside the test environment, when the first response to a
  state-changing request is a 403 classified as CSRF-related, \<open>apiFetch\<close> calls
  \<open>refreshCsrfToken\<close>.  If the refresh succeeds and \<open>maxRetries\<close> is at least 1, the
  request is sent again as attempt 1 and the call goes on from there, with no further
  refresh.  If the refresh fails, the call returns the failure \<open>CSRF_TOKEN_INVALID\<close>
  with no further request.  A CSRF-classified 403 at any later attempt returns
  \<open>CSRF_TOKEN_INVALID\<close> with no further request.  No call refreshes the token more
  than once.
\<close>

theorem apiFetch_csrf_refresh:
  "(fetch env 0 = Responded r \<and> csrfHandled env options r \<and> refreshCsrfToken env \<and>
    1 \<le> maxRetries cfg \<longrightarrow>
      (\<exists>rest. apiFetch env url options cfg =
         (fst (apiFetchLoop env url options cfg 1 None),
          sentRequest env url options 0 # RefreshCsrfToken # sentRequest env url options 1 # rest) \<and>
         RefreshCsrfToken \<notin> set rest)) \<and>
   (fetch env 0 = Responded r \<and> csrfHandled env options r \<and> \<not> refreshCsrfToken env \<longrightarrow>
      apiFetch env url options cfg =
        (csrfExpired, [sentRequest env url options 0, RefreshCsrfToken])) \<and>
   (0 < attempt \<and> attempt \<le> maxRetries cfg \<and> fetch env attempt = Responded r \<and>
    csrfHandled env options r \<longrightarrow>
      apiFetchLoop env url options cfg attempt le =
        (csrfExpired, [sentRequest env url options attempt])) \<and>
   code csrfExpired = Some CSRF_TOKEN_INVALID \<and> \<not> success csrfExpired \<and>
   count_list (snd (apiFetch env url options cfg)) RefreshCsrfToken \<le> 1"
proof -
  have p1: "\<exists>rest. apiFetch env url options cfg =
         (fst (apiFetchLoop env url options cfg 1 None),
          sentRequest env url options 0 # RefreshCsrfToken # sentRequest env url options 1 # rest) \<and>
         RefreshCsrfToken \<notin> set rest"
    if h: "fetch env 0 = Responded r" "csrfHandled env options r" "refreshCsrfToken env"
      "1 \<le> maxRetries cfg"
  proof -
    obtain rest where f: "snd (apiFetchLoop env url options cfg 1 None) =
        sentRequest env url options 1 # rest"
      using apiFetchLoop_first [OF h(4), of env url options None] by blast
    have "RefreshCsrfToken \<notin> set (snd (apiFetchLoop env url options cfg 1 None))"
      using apiFetchLoop_no_refresh [of 1 env url options cfg None] by simp
    then have "RefreshCsrfToken \<notin> set rest" using f by simp
    then show ?thesis
      using f h by (simp add: apiFetch_first_pass loopBody_csrf [OF h(1,2)])
  qed
  have p2: "apiFetch env url options cfg =
        (csrfExpired, [sentRequest env url options 0, RefreshCsrfToken])"
    if h: "fetch env 0 = Responded r" "csrfHandled env options r" "\<not> refreshCsrfToken env"
    using h by (simp add: apiFetch_first_pass loopBody_csrf [OF h(1,2)])
  have p3: "apiFetchLoop env url options cfg attempt le =
        (csrfExpired, [sentRequest env url options attempt])"
    if h: "0 < attempt" "attempt \<le> maxRetries cfg" "fetch env attempt = Responded r"
      "csrfHandled env options r"
    using h apiFetchLoop_Return [OF h(2), of env url options le csrfExpired
        "[sentRequest env url options attempt]"]
    by (simp add: loopBody_csrf [OF h(3,4)])
  have p4: "code csrfExpired = Some CSRF_TOKEN_INVALID \<and> \<not> success csrfExpired"
    by (simp add: csrfExpired_def failure_def)
  show ?thesis using p1 p2 p3 p4 apiFetch_refresh_count [of env url options cfg] by blast
qed

theorem apiFetch_csrf_refresh_witness:
  "(fetch csrfOnceEnv 0 = Responded csrfRejection \<and>
    csrfHandled csrfOnceEnv postOptions csrfRejection \<and>
    refreshCsrfToken csrfOnceEnv \<and> 1 \<le> maxRetries DEFAULT_RETRY_CONFIG) \<and>
   (\<exists>rest.
      apiFetch csrfOnceEnv ''/api/assessment/submit'' postOptions DEFAULT_RETRY_CONFIG =
        (fst (apiFetchLoop csrfOnceEnv ''/api/assessment/submit'' postOptions
                DEFAULT_RETRY_CONFIG 1 None),
         sentRequest csrfOnceEnv ''/api/assessment/submit'' postOptions 0 # RefreshCsrfToken #
         sentRequest csrfOnceEnv ''/api/assessment/submit'' postOptions 1 # rest) \<and>
      RefreshCsrfToken \<notin> set rest) \<and>
   apiFetch csrfOnceEnv ''/api/assessment/submit'' postOptions DEFAULT_RETRY_CONFIG =
     (\<lparr> success = True, data = Some [(''assessmentId'', ''a-1''), (''leadId'', ''l-1'')],
        error = None, code = None \<rparr>,
      [sentRequest csrfOnceEnv ''/api/assessment/submit'' postOptions 0, RefreshCsrfToken,
       sentRequest csrfOnceEnv ''/api/assessment/submit'' postOptions 1]) \<and>
   (fetch csrfStuckEnv 0 = Responded csrfRejection \<and>
    csrfHandled csrfStuckEnv postOptions csrfRejection \<and> \<not> refreshCsrfToken csrfStuckEnv) \<and>
   apiFetch csrfStuckEnv ''/api/assessment/submit'' postOptions DEFAULT_RETRY_CONFIG =
     (csrfExpired,
      [sentRequest csrfStuckEnv ''/api/assessment/submit'' postOptions 0, RefreshCsrfToken]) \<and>
   ((0::nat) < 1 \<and> 1 \<le> maxRetries DEFAULT_RETRY_CONFIG \<and>
    fetch csrfLaterEnv 1 = Responded csrfRejection \<and>
    csrfHandled csrfLaterEnv postOptions csrfRejection) \<and>
   apiFetchLoop csrfLaterEnv ''/api/assessment/submit'' postOptions DEFAULT_RETRY_CONFIG 1
       (Some (ApiError ''Request failed'' SERVER_ERROR (Some 503))) =
     (csrfExpired, [sentRequest csrfLaterEnv ''/api/assessment/submit'' postOptions 1])"
proof -
  have post: "requiresCsrfToken (Some ''POST'')" by code_simp
  have h1: "fetch csrfOnceEnv 0 = Responded csrfRejection \<and>
    csrfHandled csrfOnceEnv postOptions csrfRejection \<and>
    refreshCsrfToken csrfOnceEnv \<and> 1 \<le> maxRetries DEFAULT_RETRY_CONFIG"
    using post
    by (simp add: csrfOnceEnv_def csrfHandled_def postOptions_def csrfRejection_def
          isCsrfError_def errorDataOf_def DEFAULT_RETRY_CONFIG_def)
  have h2: "fetch csrfStuckEnv 0 = Responded csrfRejection \<and>
    csrfHandled csrfStuckEnv postOptions csrfRejection \<and> \<not> refreshCsrfToken csrfStuckEnv"
    using post
    by (simp add: csrfStuckEnv_def csrfOnceEnv_def csrfHandled_def postOptions_def
          csrfRejection_def isCsrfError_def errorDataOf_def)
  have h3: "(0::nat) < 1 \<and> 1 \<le> maxRetries DEFAULT_RETRY_CONFIG \<and>
    fetch csrfLaterEnv 1 = Responded csrfRejection \<and>
    csrfHandled csrfLaterEnv postOptions csrfRejection"
    using post
    by (simp add: csrfLaterEnv_def csrfOnceEnv_def csrfHandled_def postOptions_def
          csrfRejection_def isCsrfError_def errorDataOf_def DEFAULT_RETRY_CONFIG_def)
  have c1: "\<exists>rest.
      apiFetch csrfOnceEnv ''/api/assessment/submit'' postOptions DEFAULT_RETRY_CONFIG =
        (fst (apiFetchLoop csrfOnceEnv ''/api/assessment/submit'' postOptions
                DEFAULT_RETRY_CONFIG 1 None),
         sentRequest csrfOnceEnv ''/api/assessment/submit'' postOptions 0 # RefreshCsrfToken #
         sentRequest csrfOnceEnv ''/api/assessment/submit'' postOptions 1 # rest) \<and>
      RefreshCsrfToken \<notin> set rest"
    using apiFetch_csrf_refresh [of csrfOnceEnv csrfRejection postOptions DEFAULT_RETRY_CONFIG
        "''/api/assessment/submit''" 1 None] h1
    by blast
  have c2: "apiFetch csrfStuckEnv ''/api/assessment/submit'' postOptions DEFAULT_RETRY_CONFIG =
     (csrfExpired,
      [sentRequest csrfStuckEnv ''/api/assessment/submit'' postOptions 0, RefreshCsrfToken])"
    using apiFetch_csrf_refresh [of csrfStuckEnv csrfRejection postOptions DEFAULT_RETRY_CONFIG
        "''/api/assessment/submit''" 1 None] h2
    by blast
  have c3: "apiFetchLoop csrfLaterEnv ''/api/assessment/submit'' postOptions DEFAULT_RETRY_CONFIG 1
       (Some (ApiError ''Request failed'' SERVER_ERROR (Some 503))) =
     (csrfExpired, [sentRequest csrfLaterEnv ''/api/assessment/submit'' postOptions 1])"
    using apiFetch_csrf_refresh [of csrfLaterEnv csrfRejection postOptions DEFAULT_RETRY_CONFIG
        "''/api/assessment/submit''" 1 "Some (ApiError ''Request failed'' SERVER_ERROR (Some 503))"]
      h3
    by blast
  have run: "apiFetch csrfOnceEnv ''/api/assessment/submit'' postOptions DEFAULT_RETRY_CONFIG =
     (\<lparr> success = True, data = Some [(''assessmentId'', ''a-1''), (''leadId'', ''l-1'')],
        error = None, code = None \<rparr>,
      [sentRequest csrfOnceEnv ''/api/assessment/submit'' postOptions 0, RefreshCsrfToken,
       sentRequest csrfOnceEnv ''/api/assessment/submit'' postOptions 1])"
    by code_simp
  show ?thesis using h1 h2 h3 c1 c2 c3 run by blast
qed

text \<open>
  C1 as first stated does not hold under the test runner (\<open>IS_TEST_ENV\<close>), where the
  CSRF branch is switched off: a POST whose
  first response is a 403 with code \<open>CSRF_TOKEN_INVALID\<close> gets no token refresh and no
  retry, and the failure is \<open>FORBIDDEN\<close>.
\<close>

theorem apiFetch_csrf_test_env_counterexample:
  "requiresCsrfToken (requestMethod postOptions) \<and>
   fetch vitestEnv 0 = Responded csrfRejection \<and>
   status csrfRejection = 403 \<and>
   isCsrfError (errorDataOf csrfRejection) \<and>
   apiFetch vitestEnv ''/api/assessment/submit'' postOptions DEFAULT_RETRY_CONFIG =
     (failure ''Request failed'' FORBIDDEN,
      [Fetched ''/api/assessment/submit'' (Some ''POST'')
         [(''Content-Type'', ''application/json'')] (Some ''{}'')]) \<and>
   RefreshCsrfToken \<notin> set (snd (apiFetch vitestEnv ''/api/assessment/submit'' postOptions
                                DEFAULT_RETRY_CONFIG)) \<and>
   fetchCount (snd (apiFetch vitestEnv ''/api/assessment/submit'' postOptions
                      DEFAULT_RETRY_CONFIG)) = 1"
proof -
  have run: "apiFetch vitestEnv ''/api/assessment/submit'' postOptions DEFAULT_RETRY_CONFIG =
     (failure ''Request failed'' FORBIDDEN,
      [Fetched ''/api/assessment/submit'' (Some ''POST'')
         [(''Content-Type'', ''application/json'')] (Some ''{}'')])"
    by code_simp
  have pre: "requiresCsrfToken (requestMethod postOptions)"
    "fetch vitestEnv 0 = Responded csrfRejection"
    "status csrfRejection = 403" "isCsrfError (errorDataOf csrfRejection)"
    by code_simp+
  show ?thesis using pre by (simp add: run fetchCount_def)
qed

text \<open>
  With \<open>maxRetries = 0\<close> the refresh is made but the loop has no pass left for the
  retry, and the call ends in \<open>UNKNOWN_ERROR\<close>.
\<close>

lemma apiFetch_csrf_no_retry_left:
  "apiFetch csrfOnceEnv ''/api/assessment/submit'' postOptions
     \<lparr> maxRetries = 0, baseDelay = 1000, maxDelay = 10000 \<rparr> =
     (failure ''An unexpected error occurred. Please try again.'' UNKNOWN_ERROR,
      [sentRequest csrfOnceEnv ''/api/assessment/submit'' postOptions 0, RefreshCsrfToken])"
  by code_simp

text \<open>
  After the retry that follows the refresh, the ordinary retry rules go on: here the
  request is sent three times in all.
\<close>

lemma apiFetch_csrf_then_backoff:
  "apiFetch csrfThenBusyEnv ''/api/assessment/submit'' postOptions DEFAULT_RETRY_CONFIG =
     (\<lparr> success = True, data = Some [(''assessmentId'', ''a-1''), (''leadId'', ''l-1'')],
        error = None, code = None \<rparr>,
      [sentRequest csrfThenBusyEnv ''/api/assessment/submit'' postOptions 0, RefreshCsrfToken,
       sentRequest csrfThenBusyEnv ''/api/assessment/submit'' postOptions 1, Slept 2000,
       sentRequest csrfThenBusyEnv ''/api/assessment/submit'' postOptions 2])"
  by code_simp

text \<open>
  C6.  \<open>submitAssessment\<close> checks the contact record before any request.  It returns,
  with no request sent: \<open>INVALID_EMAIL\<close> when the e-mail is empty or fails the e-mail
  pattern; otherwise \<open>INVALID_PHONE\<close> when a phone is given and fails the phone pattern;
  otherwise \<open>VALIDATION_ERROR\<close> when the name is empty or shorter than 2 after
  trimming.  Only when the three checks pass does it call \<open>apiFetch\<close>, whose first
  event is the POST of the payload to \<open>/api/assessment/submit\<close>.
\<close>

theorem submitAssessment_validation_order:
  "(emailInvalid (contactInfo payload) \<longrightarrow>
      submitAssessment env payload =
        (failure ''Please provide a valid email address'' INVALID_EMAIL, [])) \<and>
   (\<not> emailInvalid (contactInfo payload) \<and> phoneInvalid (contactInfo payload) \<longrightarrow>
      submitAssessment env payload =
        (failure ''Please provide a valid phone number'' INVALID_PHONE, [])) \<and>
   (\<not> emailInvalid (contactInfo payload) \<and> \<not> phoneInvalid (contactInfo payload) \<and>
    nameInvalid (contactInfo payload) \<longrightarrow>
      submitAssessment env payload = (failure ''Please provide a valid name'' VALIDATION_ERROR, [])) \<and>
   (\<not> emailInvalid (contactInfo payload) \<and> \<not> phoneInvalid (contactInfo payload) \<and>
    \<not> nameInvalid (contactInfo payload) \<longrightarrow>
      submitAssessment env payload =
        apiFetch env (API_BASE_URL env @ ''/api/assessment/submit'') (submitRequest env payload)
          DEFAULT_RETRY_CONFIG \<and>
      (\<exists>hs rest. snd (submitAssessment env payload) =
         Fetched (API_BASE_URL env @ ''/api/assessment/submit'') (Some ''POST'') hs
           (Some (JSON_stringify env (requestPayload env payload))) # rest))"
proof -
  have sent: "\<exists>hs rest.
      snd (apiFetch env (API_BASE_URL env @ ''/api/assessment/submit'') (submitRequest env payload)
             DEFAULT_RETRY_CONFIG) =
      Fetched (API_BASE_URL env @ ''/api/assessment/submit'') (Some ''POST'') hs
        (Some (JSON_stringify env (requestPayload env payload))) # rest"
    using apiFetchLoop_first [of 0 DEFAULT_RETRY_CONFIG env
        "API_BASE_URL env @ ''/api/assessment/submit''" "submitRequest env payload" None]
    by (auto simp add: apiFetch_def sentRequest_def submitRequest_def)
  have pass: "submitAssessment env payload =
        apiFetch env (API_BASE_URL env @ ''/api/assessment/submit'') (submitRequest env payload)
          DEFAULT_RETRY_CONFIG"
    if "\<not> emailInvalid (contactInfo payload)" "\<not> phoneInvalid (contactInfo payload)"
      "\<not> nameInvalid (contactInfo payload)"
    using that
    by (auto simp add: submitAssessment_def emailInvalid_def phoneInvalid_def nameInvalid_def
          submitRequest_def)
  have rejected:
    "emailInvalid (contactInfo payload) \<Longrightarrow>
       submitAssessment env payload =
         (failure ''Please provide a valid email address'' INVALID_EMAIL, [])"
    "\<not> emailInvalid (contactInfo payload) \<Longrightarrow> phoneInvalid (contactInfo payload) \<Longrightarrow>
       submitAssessment env payload =
         (failure ''Please provide a valid phone number'' INVALID_PHONE, [])"
    "\<not> emailInvalid (contactInfo payload) \<Longrightarrow> \<not> phoneInvalid (contactInfo payload) \<Longrightarrow>
     nameInvalid (contactInfo payload) \<Longrightarrow>
       submitAssessment env payload = (failure ''Please provide a valid name'' VALIDATION_ERROR, [])"
    by (auto simp add: submitAssessment_def emailInvalid_def phoneInvalid_def nameInvalid_def)
  show ?thesis using sent pass rejected by force
qed

lemma contact_checks:
  "\<not> emailInvalid contactOk" "\<not> phoneInvalid contactOk" "\<not> nameInvalid contactOk"
  "emailInvalid (contactOk\<lparr>email := ''jane.doe@example''\<rparr>)"
  "\<not> emailInvalid (contactOk\<lparr>phone := Some ''555-1234''\<rparr>)"
  "phoneInvalid (contactOk\<lparr>phone := Some ''555-1234''\<rparr>)"
  "\<not> emailInvalid (contactOk\<lparr>name := '' J ''\<rparr>)"
  "\<not> phoneInvalid (contactOk\<lparr>name := '' J ''\<rparr>)"
  "nameInvalid (contactOk\<lparr>name := '' J ''\<rparr>)"
  by code_simp+

theorem submitAssessment_validation_order_witness:
  "submitAssessment csrfOnceEnv (samplePayload (contactOk\<lparr>email := ''jane.doe@example''\<rparr>)) =
     (failure ''Please provide a valid email address'' INVALID_EMAIL, []) \<and>
   submitAssessment csrfOnceEnv (samplePayload (contactOk\<lparr>phone := Some ''555-1234''\<rparr>)) =
     (failure ''Please provide a valid phone number'' INVALID_PHONE, []) \<and>
   submitAssessment csrfOnceEnv (samplePayload (contactOk\<lparr>name := '' J ''\<rparr>)) =
     (failure ''Please provide a valid name'' VALIDATION_ERROR, []) \<and>
   (\<exists>hs rest. snd (submitAssessment csrfOnceEnv (samplePayload contactOk)) =
      Fetched (API_BASE_URL csrfOnceEnv @ ''/api/assessment/submit'') (Some ''POST'') hs
        (Some (JSON_stringify csrfOnceEnv (requestPayload csrfOnceEnv (samplePayload contactOk))))
      # rest)"
proof -
  have sel: "contactInfo (samplePayload c) = c" for c
    by (simp add: samplePayload_def)
  have c1: "submitAssessment csrfOnceEnv (samplePayload (contactOk\<lparr>email := ''jane.doe@example''\<rparr>)) =
     (failure ''Please provide a valid email address'' INVALID_EMAIL, [])"
    by (rule submitAssessment_validation_order [THEN conjunct1, THEN mp]) (simp add: sel contact_checks)
  have c2: "submitAssessment csrfOnceEnv (samplePayload (contactOk\<lparr>phone := Some ''555-1234''\<rparr>)) =
     (failure ''Please provide a valid phone number'' INVALID_PHONE, [])"
    by (rule submitAssessment_validation_order [THEN conjunct2, THEN conjunct1, THEN mp])
       (simp add: sel contact_checks)
  have c3: "submitAssessment csrfOnceEnv (samplePayload (contactOk\<lparr>name := '' J ''\<rparr>)) =
     (failure ''Please provide a valid name'' VALIDATION_ERROR, [])"
    by (rule submitAssessment_validation_order
          [THEN conjunct2, THEN conjunct2, THEN conjunct1, THEN mp])
       (simp add: sel contact_checks)
  have c4: "\<exists>hs rest. snd (submitAssessment csrfOnceEnv (samplePayload contactOk)) =
      Fetched (API_BASE_URL csrfOnceEnv @ ''/api/assessment/submit'') (Some ''POST'') hs
        (Some (JSON_stringify csrfOnceEnv (requestPayload csrfOnceEnv (samplePayload contactOk))))
      # rest"
    by (rule submitAssessment_validation_order
          [THEN conjunct2, THEN conjunct2, THEN conjunct2, THEN mp, THEN conjunct2])
       (simp add: sel contact_checks)
  show ?thesis using c1 c2 c3 c4 by (intro conjI)
qed

end
